theory Spec2Isabelle
  imports Complex_Main "HOL-Library.Sublist"
begin

section \<open>Common data\<close>

text \<open>
  Exceptions that the modelled functions raise.  A failed \<^verbatim>\<open>assert\<close> is
  \<open>AssertionError\<close> (the specification calls it InvalidInput); \<open>MXNetError\<close> is the
  tensor library's error for arguments an operator rejects, \<open>ShapeError\<close> its error for
  operands whose shapes do not fit.  Python \<^verbatim>\<open>int\<close> is \<open>int\<close>.
\<close>

datatype error =
    AssertionError | IndexError | ValueError | KeyError | ZeroDivisionError
  | ShapeError | MXNetError

section \<open>Backbone family: \<^verbatim>\<open>src/models/fpn/_resnext.py\<close>\<close>

subsection \<open>Layers\<close>

text \<open>
  The constructors build layer objects; a layer is described by the arguments it was
  constructed with.  \<open>Conv2D\<close> carries the keywords of \<^verbatim>\<open>nn.Conv2D\<close> (with the
  library's defaults \<^verbatim>\<open>strides=1, padding=0, groups=1, use_bias=True\<close> written out
  where the source leaves them out).  \<^verbatim>\<open>norm_layer(**norm_kwargs)\<close> is \<open>Norm g\<close>, where
  \<open>g\<close> tells whether \<^verbatim>\<open>Block\<close> passed \<^verbatim>\<open>gamma_initializer='zeros'\<close>; the caller's
  \<^verbatim>\<open>norm_kwargs\<close> are handed on unchanged to every norm layer and are not recorded.
\<close>

record conv =
  channels :: int
  kernel_size :: int
  strides :: int
  padding :: int
  groups :: int
  use_bias :: bool

record dcn =
  num_filter :: int
  dcn_kernel_size :: int
  dcn_strides :: int
  dcn_padding :: int
  dilation :: int
  dcn_use_bias :: bool
  in_channels :: int
  num_groups :: int
  offset_channels :: int
  num_deformable_group :: int

datatype gamma_initializer = gamma_default | gamma_zeros

datatype layer =
    Conv2D conv
  | DeformabelConv2D dcn
  | Norm gamma_initializer
  | Activation string
  | MaxPool2D int int int

text \<open>
  Constructors can raise, and the first one that does ends the construction:
  \<open>bind_err\<close> passes a result on or stops at the error, \<open>sequence_err\<close> runs a list of
  constructions in order.
\<close>

definition bind_err :: "error + 'a \<Rightarrow> ('a \<Rightarrow> error + 'b) \<Rightarrow> error + 'b" where
  "bind_err m f = (case m of Inl e \<Rightarrow> Inl e | Inr x \<Rightarrow> f x)"

fun sequence_err :: "(error + 'a) list \<Rightarrow> error + 'a list" where
  "sequence_err [] = Inr []"
| "sequence_err (m # ms) =
     bind_err m (\<lambda>x. bind_err (sequence_err ms) (\<lambda>xs. Inr (x # xs)))"

text \<open>
  \<^verbatim>\<open>nn.Conv2D(channels, kernel_size, strides, padding, groups, use_bias)\<close>.  The
  constructor infers the weight shape through the tensor library's convolution
  operator, which rejects a filter count, kernel size, stride or group count below 1
  with an \<open>MXNetError\<close>.  The operator's upper limits (the width of its integer
  fields; in some releases a largest filter count of 100000) are not part of the
  model: what is proved about a successful construction is stated for filter counts
  of at most 100000, which every release accepts.
\<close>

definition nn_Conv2D :: "conv \<Rightarrow> error + layer" where
  "nn_Conv2D c =
     (if channels c < 1 \<or> kernel_size c < 1 \<or> strides c < 1 \<or> groups c < 1
      then Inl MXNetError else Inr (Conv2D c))"

text \<open>
  \<^verbatim>\<open>DeformabelConv2D.__init__\<close>: the offset branch is a convolution with 72 channels
  and the block's kernel size, stride and padding; the weight has shape
  \<^verbatim>\<open>(num_filter, in_channels//num_groups, kernel_size, kernel_size)\<close>, where the integer
  division raises for \<^verbatim>\<open>num_groups = 0\<close>; the primitive is called with
  \<^verbatim>\<open>num_deformable_group=4\<close>.
\<close>

definition DeformabelConv2D_init ::
  "int \<Rightarrow> int \<Rightarrow> int \<Rightarrow> int \<Rightarrow> int \<Rightarrow> bool \<Rightarrow> int \<Rightarrow> int \<Rightarrow> error + layer" where
  "DeformabelConv2D_init nf ks st pd dil ub inc ng =
     bind_err (nn_Conv2D \<lparr>channels = 72, kernel_size = ks, strides = st, padding = pd,
                 groups = 1, use_bias = True\<rparr>)
       (\<lambda>conv_offset.
          if ng = 0 then Inl ZeroDivisionError
          else Inr (DeformabelConv2D \<lparr>num_filter = nf, dcn_kernel_size = ks, dcn_strides = st,
                 dcn_padding = pd, dilation = dil, dcn_use_bias = ub, in_channels = inc,
                 num_groups = ng, offset_channels = 72, num_deformable_group = 4\<rparr>))"

text \<open>\<^verbatim>\<open>_conv3x3(in_channels, group_width, kernel_size, strides, padding, groups, use_bias)\<close>.\<close>

definition conv3x3_dcn ::
  "int \<Rightarrow> int \<Rightarrow> int \<Rightarrow> int \<Rightarrow> int \<Rightarrow> int \<Rightarrow> bool \<Rightarrow> error + layer" where
  "conv3x3_dcn inc gw ks st pd grp ub = DeformabelConv2D_init gw ks st pd 1 ub inc grp"

subsection \<open>The bottleneck block\<close>

text \<open>
  \<^verbatim>\<open>D = int(math.floor(channels * (bottleneck_width / 64)))\<close> with true division
  (\<^verbatim>\<open>from __future__ import division\<close>), and \<^verbatim>\<open>group_width = cardinality * D\<close>.
  The quotient \<open>bottleneck_width / 64\<close> and its product with \<open>channels\<close> are dyadic
  rationals, which double precision represents exactly at the sizes of a network, so the
  real-number floor is the value the code computes.
\<close>

definition Block_D :: "int \<Rightarrow> int \<Rightarrow> int" where
  "Block_D chs bottleneck_width = \<lfloor>real_of_int chs * (real_of_int bottleneck_width / 64)\<rfloor>"

definition Block_group_width :: "int \<Rightarrow> int \<Rightarrow> int \<Rightarrow> int" where
  "Block_group_width chs cardinality bottleneck_width = cardinality * Block_D chs bottleneck_width"

record Block =
  body :: "layer list"
  se :: "layer list option"
  downsample :: "layer list option"

text \<open>
  \<^verbatim>\<open>Block.__init__(channels, cardinality, bottleneck_width, stride, downsample,
  last_gamma, use_se, use_dcn)\<close>.  The body is built by successive \<^verbatim>\<open>add\<close> calls, in
  this order, then the squeeze-and-excitation branch and the downsample path.  The last
  norm layer of the body follows the source's branch:
  \<^verbatim>\<open>if last_gamma: norm_layer(...) else: norm_layer(gamma_initializer='zeros', ...)\<close>.
\<close>

definition Block_init ::
  "int \<Rightarrow> int \<Rightarrow> int \<Rightarrow> int \<Rightarrow> bool \<Rightarrow> bool \<Rightarrow> bool \<Rightarrow> bool \<Rightarrow> error + Block" where
  "Block_init chs cardinality bottleneck_width stride dsample last_gamma use_se use_dcn =
    (let group_width = Block_group_width chs cardinality bottleneck_width in
     bind_err
       (sequence_err
          [nn_Conv2D \<lparr>channels = group_width, kernel_size = 1, strides = 1, padding = 0,
                      groups = 1, use_bias = False\<rparr>,
           Inr (Norm gamma_default),
           Inr (Activation ''relu''),
           (if use_dcn
            then conv3x3_dcn group_width group_width 3 stride 1 cardinality False
            else nn_Conv2D \<lparr>channels = group_width, kernel_size = 3, strides = stride,
                      padding = 1, groups = cardinality, use_bias = False\<rparr>),
           Inr (Norm gamma_default),
           Inr (Activation ''relu''),
           nn_Conv2D \<lparr>channels = chs * 4, kernel_size = 1, strides = 1, padding = 0,
                      groups = 1, use_bias = False\<rparr>,
           Inr (if last_gamma then Norm gamma_default else Norm gamma_zeros)])
       (\<lambda>body_layers.
     bind_err
       (if use_se
        then bind_err
               (sequence_err
                  [nn_Conv2D \<lparr>channels = chs div 4, kernel_size = 1, strides = 1,
                              padding = 0, groups = 1, use_bias = True\<rparr>,
                   Inr (Activation ''relu''),
                   nn_Conv2D \<lparr>channels = chs * 4, kernel_size = 1, strides = 1,
                              padding = 0, groups = 1, use_bias = True\<rparr>,
                   Inr (Activation ''sigmoid'')])
               (\<lambda>layers. Inr (Some layers))
        else Inr None)
       (\<lambda>se_layers.
     bind_err
       (if dsample
        then bind_err
               (sequence_err
                  [nn_Conv2D \<lparr>channels = chs * 4, kernel_size = 1, strides = stride,
                              padding = 0, groups = 1, use_bias = False\<rparr>,
                   Inr (Norm gamma_default)])
               (\<lambda>layers. Inr (Some layers))
        else Inr None)
       (\<lambda>downsample_layers.
     Inr \<lparr>body = body_layers, se = se_layers, downsample = downsample_layers\<rparr>))))"

subsection \<open>Network assembly\<close>

record stage =
  stage_index :: int
  blocks :: "Block list"

record ResNext =
  net_cardinality :: int
  net_bottleneck_width :: int
  stem :: "layer list"
  stages :: "stage list"

text \<open>
  \<^verbatim>\<open>ResNext._make_layer\<close>: one block with the stage's stride and a downsample path,
  then \<^verbatim>\<open>range(num_layers-1)\<close> blocks with stride 1 and none (the range is empty when
  \<^verbatim>\<open>num_layers\<close> is below 2).  The prefix \<^verbatim>\<open>'stage%d_'\<close> is kept as its index.
\<close>

definition make_layer ::
  "int \<Rightarrow> int \<Rightarrow> int \<Rightarrow> int \<Rightarrow> int \<Rightarrow> bool \<Rightarrow> bool \<Rightarrow> int \<Rightarrow> bool \<Rightarrow> error + stage" where
  "make_layer cardinality bottleneck_width chs num_layers stride last_gamma use_se idx use_dcn =
     bind_err
       (Block_init chs cardinality bottleneck_width stride True last_gamma use_se use_dcn)
       (\<lambda>first.
     bind_err
       (sequence_err (replicate (nat (num_layers - 1))
          (Block_init chs cardinality bottleneck_width 1 False last_gamma use_se use_dcn)))
       (\<lambda>others.
     Inr \<lparr>stage_index = idx, blocks = first # others\<rparr>))"

text \<open>
  The loop \<^verbatim>\<open>for i, num_layer in enumerate(layers)\<close> of \<^verbatim>\<open>ResNext.__init__\<close>, with
  the running \<^verbatim>\<open>channels\<close> (doubled after every stage) and the index \<open>i\<close> as arguments.
\<close>

fun make_stages ::
  "int \<Rightarrow> int \<Rightarrow> bool \<Rightarrow> bool \<Rightarrow> int \<Rightarrow> int \<Rightarrow> int list \<Rightarrow> error + stage list" where
  "make_stages cardinality bottleneck_width last_gamma use_se i chs [] = Inr []"
| "make_stages cardinality bottleneck_width last_gamma use_se i chs (num_layer # layers) =
     bind_err
       (make_layer cardinality bottleneck_width chs num_layer (if i = 0 then 1 else 2)
          last_gamma use_se (i + 1) (i \<in> {1, 2, 3}))
       (\<lambda>st.
     bind_err
       (make_stages cardinality bottleneck_width last_gamma use_se (i + 1) (chs * 2) layers)
       (\<lambda>sts.
     Inr (st # sts)))"

definition ResNext_init :: "int list \<Rightarrow> int \<Rightarrow> int \<Rightarrow> bool \<Rightarrow> bool \<Rightarrow> error + ResNext" where
  "ResNext_init layers cardinality bottleneck_width last_gamma use_se =
     bind_err
       (sequence_err
          [nn_Conv2D \<lparr>channels = 64, kernel_size = 7, strides = 2, padding = 3,
                      groups = 1, use_bias = False\<rparr>,
           Inr (Norm gamma_default),
           Inr (Activation ''relu''),
           Inr (MaxPool2D 3 2 1)])
       (\<lambda>stem_layers.
     bind_err (make_stages cardinality bottleneck_width last_gamma use_se 0 64 layers)
       (\<lambda>sts.
     Inr \<lparr>net_cardinality = cardinality,
          net_bottleneck_width = bottleneck_width,
          stem = stem_layers,
          stages = sts\<rparr>))"

subsection \<open>Named configurations\<close>




text \<open>Observers used to state properties of a block: the channel count of the first
  1x1 convolution (the block's \<^verbatim>\<open>group_width\<close>) and of the final 1x1 convolution (the
  block's output channels), read off the body.\<close>

fun conv_channels :: "layer \<Rightarrow> int option" where
  "conv_channels (Conv2D c) = Some (channels c)"
| "conv_channels other = None"

definition Block_widths :: "Block \<Rightarrow> int option \<times> int option" where
  "Block_widths b = (conv_channels (body b ! 0), conv_channels (body b ! 6))"

section \<open>Center/regression pipeline: \<^verbatim>\<open>src/scripts/train_fcos.py\<close>\<close>

subsection \<open>Tensors\<close>

text \<open>
  A tensor is a nested list in row-major order: a vector is \<open>real list\<close>, a matrix of
  shape \<open>(M, K)\<close> is a list of \<open>M\<close> rows of length \<open>K\<close>, a tensor of shape \<open>(B, C, N)\<close>
  a list of \<open>B\<close> samples, each a list of \<open>C\<close> channels of length \<open>N\<close>.  Nested lists
  that stand for tensors are rectangular.  A shape is the list of the dimensions.  The
  tensor library has no arrays with a dimension of size zero: a tensor has at least one
  sample, channel and position (\<open>nonzero3\<close>), and a slice that would be empty raises.
  The entries of the loss tensors are modelled by \<open>real\<close>.
\<close>

type_synonym shape = "nat list"

definition shape2 :: "real list list \<Rightarrow> shape" where
  "shape2 m = [length m, (case m of [] \<Rightarrow> 0 | r # rs \<Rightarrow> length r)]"

definition nonzero3 :: "real list list list \<Rightarrow> bool" where
  "nonzero3 t \<longleftrightarrow> t \<noteq> [] \<and> list_all (\<lambda>s. s \<noteq> [] \<and> list_all (\<lambda>c. c \<noteq> []) s) t"

definition sum2 :: "real list list \<Rightarrow> real" where
  "sum2 m = sum_list (map sum_list m)"

definition sum3 :: "real list list list \<Rightarrow> real" where
  "sum3 t = sum_list (map sum2 t)"

subsection \<open>Registered loss kernels\<close>

text \<open>
  \<^verbatim>\<open>BCELoss.infer_shape(in_shape)\<close>: the assertion \<^verbatim>\<open>in_shape[0] == in_shape[1]\<close>
  runs inside \<^verbatim>\<open>try\<close>; on failure \<^verbatim>\<open>in_shape\<close> is printed and the assertion error
  raised again.  The first component of the result is what was printed.  An
  \<^verbatim>\<open>in_shape\<close> with fewer than two entries raises \<open>IndexError\<close>, which the handler
  does not catch.  On success the result is \<^verbatim>\<open>(in_shape, [in_shape[0]])\<close>: the input
  shapes and the list of output shapes.
\<close>

fun BCELoss_infer_shape :: "shape list \<Rightarrow> shape list list \<times> (error + shape list \<times> shape list)" where
  "BCELoss_infer_shape (s0 # s1 # rest) =
     (if s0 = s1 then ([], Inr (s0 # s1 # rest, [s0]))
      else ([s0 # s1 # rest], Inl AssertionError))"
| "BCELoss_infer_shape in_shape = ([], Inl IndexError)"

text \<open>\<^verbatim>\<open>L2Loss.infer_shape(in_shape)\<close>: the same assertion, without the handler.\<close>

fun L2Loss_infer_shape :: "shape list \<Rightarrow> error + shape list \<times> shape list" where
  "L2Loss_infer_shape (s0 # s1 # rest) =
     (if s0 = s1 then Inr (s0 # s1 # rest, [s0]) else Inl AssertionError)"
| "L2Loss_infer_shape in_shape = Inl IndexError"

text \<open>\<^verbatim>\<open>BCELoss.forward\<close> and \<^verbatim>\<open>L2Loss.forward\<close>, on one element.\<close>

definition BCELoss_forward :: "real \<Rightarrow> real \<Rightarrow> real" where
  "BCELoss_forward y target = ln (1 + exp y) - target * y"

definition L2Loss_forward :: "real \<Rightarrow> real \<Rightarrow> real" where
  "L2Loss_forward y target = (y - target) ^ 2"

text \<open>
  Calling the registered operator \<^verbatim>\<open>BCELoss(y, target)\<close> on two matrices: the
  operator framework infers the output shape from the input shapes with
  \<^verbatim>\<open>infer_shape\<close>, then \<^verbatim>\<open>forward\<close> runs element by element.
\<close>

definition BCELoss :: "real list list \<Rightarrow> real list list \<Rightarrow> error + real list list" where
  "BCELoss y target =
     (case snd (BCELoss_infer_shape [shape2 y, shape2 target]) of
        Inl e \<Rightarrow> Inl e
      | Inr shapes \<Rightarrow> Inr (map2 (map2 BCELoss_forward) y target))"

subsection \<open>The loss of one training step\<close>

text \<open>
  The body of the loop \<^verbatim>\<open>for data, targets in zip(data_list, targets_list)\<close> of
  \<^verbatim>\<open>train_net\<close>, from the network's predictions on: \<open>preds\<close> is the concatenation of
  the pyramid levels, of shape \<open>(B, 5 + K, N)\<close>, and \<open>targets\<close> the dense target tensor,
  of shape \<open>(B, 6 + K, N)\<close>, with channel 0 the positive mask, channels 1 to 4 the
  distances, channel 5 the centerness and the class channels from 6 on.

  \<^verbatim>\<open>mobula.op.IoULoss\<close> and \<^verbatim>\<open>mobula.op.FocalLoss\<close> are compiled operators from
  outside the repository.  They are parameters: \<open>IoULoss_op\<close> gives the loss of one row
  of four predicted distances against one row of four target distances, and
  \<open>FocalLoss_op alpha gamma\<close> the loss of one logit against one target; operands of
  differing shape are a shape error.  The output of the IoU operator has one entry per
  row, like the weight column \<^verbatim>\<open>targets[:, 5:6]\<close> it is multiplied with, and the
  output of the focal operator has the shape of its operands.

  The slices \<^verbatim>\<open>t[:, a:b].transpose((0, 2, 1)).reshape((-1, k))\<close> list, sample after
  sample and position after position, the row of the \<open>k\<close> channel values; for
  \<^verbatim>\<open>targets[:, 5:6]\<close> the rows have one entry and the column is kept as a vector.  A
  tensor with too few channels raises at the first index that is out of range, if not
  earlier in a kernel; the model reports \<open>IndexError\<close>.  Without a class channel the
  slices \<^verbatim>\<open>preds[:, 5:]\<close> and \<^verbatim>\<open>targets[:, 6:]\<close> of the focal loss are empty and
  the library raises.
\<close>

definition shape3 :: "real list list list \<Rightarrow> shape" where
  "shape3 t = length t # (case t of [] \<Rightarrow> [0, 0] | s # ss \<Rightarrow> shape2 s)"

definition train_loss ::
  "(real list \<Rightarrow> real list \<Rightarrow> real) \<Rightarrow> (real \<Rightarrow> real \<Rightarrow> real \<Rightarrow> real \<Rightarrow> real) \<Rightarrow>
   real list list list \<Rightarrow> real list list list \<Rightarrow> error + real" where
  "train_loss IoULoss_op FocalLoss_op preds targets =
     (if \<not> (nonzero3 preds \<and> nonzero3 targets) then Inl MXNetError
      else if \<not> (list_all (\<lambda>s. 5 \<le> length s) preds \<and> list_all (\<lambda>s. 6 \<le> length s) targets)
      then Inl IndexError
      else
        let positive = map (\<lambda>s. s ! 0) targets;
            num_pos = sum2 positive + 1;
            pred_rows = concat (map (\<lambda>s. transpose (take 4 s)) preds);
            target_rows = concat (map (\<lambda>s. transpose (take 4 (drop 1 s))) targets);
            centerness = map (\<lambda>s. s ! 5) targets
        in if length pred_rows \<noteq> length target_rows then Inl ShapeError
           else
             let iou_loss = map2 (\<lambda>l c. l * c / (sum2 centerness + 1))
                              (map2 IoULoss_op pred_rows target_rows) (concat centerness)
             in case BCELoss (map (\<lambda>s. s ! 4) preds) centerness of
                  Inl e \<Rightarrow> Inl e
                | Inr bce \<Rightarrow>
                    let loss_center = map2 (map2 (\<lambda>l m. l * m / num_pos)) bce positive
                    in if \<not> (list_all (\<lambda>s. 6 \<le> length s) preds
                              \<and> list_all (\<lambda>s. 7 \<le> length s) targets)
                       then Inl MXNetError
                       else if shape3 (map (drop 5) preds) \<noteq> shape3 (map (drop 6) targets)
                       then Inl ShapeError
                       else
                         let loss_cls =
                               map2 (map2 (map2 (\<lambda>x t. FocalLoss_op (1 / 4) 2 x t / num_pos)))
                                 (map (drop 5) preds) (map (drop 6) targets)
                         in Inr (sum2 loss_center + sum_list iou_loss + sum3 loss_cls))"

text \<open>
  The three sums before normalisation, for stating the loss in closed form: the
  centerness cross-entropy under the positive mask, the IoU loss weighted by a per-row
  weight \<open>w\<close>, and the focal classification loss.
\<close>

definition center_sum :: "real list list list \<Rightarrow> real list list list \<Rightarrow> real" where
  "center_sum preds targets =
     sum2 (map2 (map2 (\<lambda>l m. l * m))
             (map2 (map2 BCELoss_forward) (map (\<lambda>s. s ! 4) preds) (map (\<lambda>s. s ! 5) targets))
             (map (\<lambda>s. s ! 0) targets))"

definition iou_sum ::
  "(real list \<Rightarrow> real list \<Rightarrow> real) \<Rightarrow> real list \<Rightarrow>
   real list list list \<Rightarrow> real list list list \<Rightarrow> real" where
  "iou_sum IoULoss_op w preds targets =
     sum_list (map2 (\<lambda>l c. l * c)
       (map2 IoULoss_op (concat (map (\<lambda>s. transpose (take 4 s)) preds))
                        (concat (map (\<lambda>s. transpose (take 4 (drop 1 s))) targets)))
       w)"

definition cls_sum ::
  "(real \<Rightarrow> real \<Rightarrow> real \<Rightarrow> real \<Rightarrow> real) \<Rightarrow> real list list list \<Rightarrow> real list list list \<Rightarrow> real" where
  "cls_sum FocalLoss_op preds targets =
     sum3 (map2 (map2 (map2 (FocalLoss_op (1 / 4) 2))) (map (drop 5) preds) (map (drop 6) targets))"

text \<open>
  The loss as the specification words it:
  \<^verbatim>\<open>sum(centerness_loss)/num_pos + sum(IoU_loss * positive_mask)/sum(positive_mask)
  + sum(focal_cls_loss)/num_pos\<close> with \<^verbatim>\<open>num_pos = sum(positive_mask) + 1\<close>.
\<close>

definition spec_batch_loss ::
  "(real list \<Rightarrow> real list \<Rightarrow> real) \<Rightarrow> (real \<Rightarrow> real \<Rightarrow> real \<Rightarrow> real \<Rightarrow> real) \<Rightarrow>
   real list list list \<Rightarrow> real list list list \<Rightarrow> real" where
  "spec_batch_loss IoULoss_op FocalLoss_op preds targets =
     (let positive_mask = map (\<lambda>s. s ! 0) targets;
          num_pos = sum2 positive_mask + 1
      in center_sum preds targets / num_pos
         + iou_sum IoULoss_op (concat positive_mask) preds targets / sum2 positive_mask
         + cls_sum FocalLoss_op preds targets / num_pos)"

text \<open>The shapes under which the step computes a loss: no empty dimension, at least one
  class channel after the five prediction and six target channels, and operands of equal
  shape for the three kernels.\<close>

definition shapes_ok :: "real list list list \<Rightarrow> real list list list \<Rightarrow> bool" where
  "shapes_ok preds targets \<longleftrightarrow>
     nonzero3 preds \<and> nonzero3 targets
     \<and> list_all (\<lambda>s. 6 \<le> length s) preds \<and> list_all (\<lambda>s. 7 \<le> length s) targets
     \<and> length (concat (map (\<lambda>s. transpose (take 4 s)) preds))
         = length (concat (map (\<lambda>s. transpose (take 4 (drop 1 s))) targets))
     \<and> shape2 (map (\<lambda>s. s ! 4) preds) = shape2 (map (\<lambda>s. s ! 5) targets)
     \<and> shape3 (map (drop 5) preds) = shape3 (map (drop 6) targets)"

section \<open>Target-generation adapters\<close>

text \<open>
  The adapters receive numpy arrays by reference and \<^verbatim>\<open>FCOSTargetGenerator\<close> updates
  one in place, so arrays live in a store: a list of arrays, the address of an array
  being its index.  A two-dimensional array is the list of its rows.  Allocation appends
  to the store; addresses handed to the adapters are those of existing arrays.  The image
  is a three-dimensional array that is never written to; it is passed by value, and the
  conversions \<^verbatim>\<open>astype\<close> and \<^verbatim>\<open>mx.nd.array\<close> keep the values.
\<close>

type_synonym ndarray = "real list list"

type_synonym heap = "ndarray list"

definition np_alloc :: "heap \<Rightarrow> ndarray \<Rightarrow> heap \<times> nat" where
  "np_alloc h arr = (h @ [arr], length h)"

text \<open>\<^verbatim>\<open>a.copy()\<close>: a new array with the contents of the one at address \<open>a\<close>.\<close>

definition np_copy :: "heap \<Rightarrow> nat \<Rightarrow> heap \<times> nat" where
  "np_copy h a = np_alloc h (h ! a)"

subsection \<open>\<^verbatim>\<open>RetinaNetTargetGenerator.__call__\<close> in \<^verbatim>\<open>src/scripts/train_retinanet.py\<close>\<close>

text \<open>\<^verbatim>\<open>config.dataset.max_bbox_number = 200\<close>, set in \<^verbatim>\<open>main\<close>.\<close>

definition max_bbox_number :: nat where
  "max_bbox_number = 200"

text \<open>
  The assignment \<^verbatim>\<open>dst[:n, :5] = src\<close> for \<open>n = len(src) \<le> len(dst)\<close>: a source
  with five columns replaces the first five entries of the first \<open>n\<close> rows, a source
  with one column is broadcast along the row, any other column count is numpy's
  \<open>ValueError\<close>.
\<close>

definition setitem_rows :: "ndarray \<Rightarrow> ndarray \<Rightarrow> error + ndarray" where
  "setitem_rows dst src =
     (if list_all (\<lambda>row. length row = 5) src
      then Inr (map2 (\<lambda>d s. s @ drop 5 d) (take (length src) dst) src @ drop (length src) dst)
      else if list_all (\<lambda>row. length row = 1) src
      then Inr (map2 (\<lambda>d s. replicate 5 (s ! 0) @ drop 5 d) (take (length src) dst) src
                @ drop (length src) dst)
      else Inl ValueError)"

text \<open>
  The call: copy the boxes, assert the bound, allocate \<^verbatim>\<open>np.ones(shape=(max, 5))\<close>
  and its product with \<open>-1\<close>, assign the boxes into the first rows, return the image and
  the padded array.  The result is the store after the call and the outcome.
\<close>

definition RetinaNetTargetGenerator_call ::
  "nat \<Rightarrow> heap \<Rightarrow> 'img \<Rightarrow> nat \<Rightarrow> heap \<times> (error + 'img \<times> nat)" where
  "RetinaNetTargetGenerator_call max_number h image_transposed bboxes0 =
     (let (h1, bboxes) = np_copy h bboxes0 in
      if \<not> length (h1 ! bboxes) \<le> max_number then (h1, Inl AssertionError)
      else
        let (h2, ones) = np_alloc h1 (replicate max_number (replicate 5 1));
            (h3, bboxes_padded) = np_alloc h2 (map (map (\<lambda>v. v * (- 1))) (h2 ! ones))
        in case setitem_rows (h3 ! bboxes_padded) (h3 ! bboxes) of
             Inl e \<Rightarrow> (h3, Inl e)
           | Inr arr \<Rightarrow> (h3[bboxes_padded := arr], Inr (image_transposed, bboxes_padded)))"

subsection \<open>\<^verbatim>\<open>FCOSTargetGenerator.__call__\<close> in \<^verbatim>\<open>src/scripts/train_fcos.py\<close>\<close>

text \<open>
  \<^verbatim>\<open>target.transpose((2, 0, 1))\<close> followed by \<^verbatim>\<open>reshape((target.shape[0], -1))\<close>
  turns a kernel output of shape \<open>(H, W, C)\<close> into \<open>C\<close> rows of \<open>H * W\<close> values, and
  \<^verbatim>\<open>np.concatenate(targets, axis=1)\<close> joins the rows of the levels; it raises
  \<open>ValueError\<close> for an empty list and for levels with differing row counts.
\<close>

definition flatten_target :: "real list list list \<Rightarrow> ndarray" where
  "flatten_target target = transpose (concat target)"

definition concatenate_axis1 :: "ndarray list \<Rightarrow> error + ndarray" where
  "concatenate_axis1 targets =
     (case targets of
        [] \<Rightarrow> Inl ValueError
      | t # ts \<Rightarrow>
          if list_all (\<lambda>u. length u = length t) ts
          then Inr (map concat (transpose targets))
          else Inl ValueError)"

text \<open>
  The call.  \<^verbatim>\<open>bboxes = bboxes.copy()\<close> rebinds the local name to a new array, and
  \<^verbatim>\<open>bboxes[:, 4] += 1\<close> updates that array in place (an array with fewer than five
  columns raises \<open>IndexError\<close>).  The compiled operator
  \<^verbatim>\<open>mobula.op.FCOSTargetGenerator\<close> is outside the repository: \<open>target_op\<close> is a
  parameter, applied to stride, the two distances, the number of classes, the image and
  the contents of the shifted array (it is handed fresh \<^verbatim>\<open>astype\<close> copies);
  \<open>fpn_strides\<close> is \<^verbatim>\<open>self.strides\<close>.
\<close>

definition FCOSTargetGenerator_call ::
  "(nat \<Rightarrow> nat \<Rightarrow> nat \<Rightarrow> nat \<Rightarrow> 'img \<Rightarrow> ndarray \<Rightarrow> real list list list) \<Rightarrow>
   nat list \<Rightarrow> nat list \<Rightarrow> nat list \<Rightarrow> nat \<Rightarrow>
   heap \<Rightarrow> 'img \<Rightarrow> nat \<Rightarrow> heap \<times> (error + 'img \<times> ndarray)" where
  "FCOSTargetGenerator_call target_op fpn_strides fpn_min_distance fpn_max_distance number_of_classes
      h image_transposed bboxes0 =
     (let (h1, bboxes) = np_copy h bboxes0 in
      if \<not> list_all (\<lambda>row. 5 \<le> length row) (h1 ! bboxes) then (h1, Inl IndexError)
      else
        let h2 = h1[bboxes := map (\<lambda>row. row[4 := row ! 4 + 1]) (h1 ! bboxes)];
            targets = map (\<lambda>(stride, min_distance, max_distance).
                        flatten_target (target_op stride min_distance max_distance
                          number_of_classes image_transposed (h2 ! bboxes)))
                      (zip fpn_strides (zip fpn_min_distance fpn_max_distance))
        in case concatenate_axis1 targets of
             Inl e \<Rightarrow> (h2, Inl e)
           | Inr t \<Rightarrow> (h2, Inr (image_transposed, t)))"

section \<open>Parameter selection in \<^verbatim>\<open>train_net\<close> of \<^verbatim>\<open>src/scripts/train_retinanet.py\<close>\<close>

text \<open>
  A \<^verbatim>\<open>Parameter\<close> object with its gradient requirement (\<^verbatim>\<open>'write'\<close>, \<^verbatim>\<open>'add'\<close>
  or \<^verbatim>\<open>'null'\<close>).  The parameter dictionary \<^verbatim>\<open>params_all\<close> is the list of its keys
  and a store from names to the objects; every key of the list is a key of the
  dictionary.  \<^verbatim>\<open>params_to_train\<close> maps names to the same objects: it is the list of its
  keys, and the state of an object is read from the store.
\<close>

record parameter =
  grad_req :: string

datatype log_message =
    ignore_null_grad string
  | ignore_matches string string

text \<open>
  The inner loop \<^verbatim>\<open>for f in params_fixed_prefix\<close> for the parameter \<open>p\<close>, on the
  store, the flag \<^verbatim>\<open>ignore\<close> and the log.  \<^verbatim>\<open>re.match\<close> is the library's: \<open>re_match\<close>
  tells whether the pattern matches the name.
\<close>

definition fixed_step ::
  "(string \<Rightarrow> string \<Rightarrow> bool) \<Rightarrow> string \<Rightarrow> string \<Rightarrow>
   (string \<Rightarrow> parameter) \<times> bool \<times> log_message list \<Rightarrow>
   (string \<Rightarrow> parameter) \<times> bool \<times> log_message list" where
  "fixed_step re_match p f st =
     (case st of (params_all, ignore, logs) \<Rightarrow>
        if re_match f p
        then (params_all(p := (params_all p)\<lparr>grad_req := ''null''\<rparr>), True,
              logs @ [ignore_matches p f])
        else (params_all, ignore, logs))"

text \<open>The body of \<^verbatim>\<open>for p in params_all.keys()\<close>.\<close>

definition select_step ::
  "(string \<Rightarrow> string \<Rightarrow> bool) \<Rightarrow> string list option \<Rightarrow> string \<Rightarrow>
   (string \<Rightarrow> parameter) \<times> string list \<times> log_message list \<Rightarrow>
   (string \<Rightarrow> parameter) \<times> string list \<times> log_message list" where
  "select_step re_match params_fixed_prefix p st =
     (case st of (params_all, params_to_train, logs) \<Rightarrow>
        let ignore0 = (grad_req (params_all p) = ''null'' \<and> \<not> sublist ''running'' p);
            log0 = (if ignore0 then logs @ [ignore_null_grad p] else logs);
            (params_all1, ignore1, log1) =
              (case params_fixed_prefix of
                 None \<Rightarrow> (params_all, ignore0, log0)
               | Some fs \<Rightarrow> fold (fixed_step re_match p) fs (params_all, ignore0, log0))
        in if \<not> ignore1 \<and> grad_req (params_all1 p) \<noteq> ''null''
           then (params_all1,
                 (if p \<in> set params_to_train then params_to_train else params_to_train @ [p]),
                 log1)
           else (params_all1, params_to_train, log1))"

text \<open>The whole loop, started with \<^verbatim>\<open>params_to_train = {}\<close> and an empty log.\<close>

definition select_params ::
  "(string \<Rightarrow> string \<Rightarrow> bool) \<Rightarrow> string list option \<Rightarrow> string list \<Rightarrow>
   (string \<Rightarrow> parameter) \<Rightarrow> (string \<Rightarrow> parameter) \<times> string list \<times> log_message list" where
  "select_params re_match params_fixed_prefix keys params_all =
     fold (select_step re_match params_fixed_prefix) keys (params_all, [], [])"

text \<open>Whether some pattern of \<^verbatim>\<open>params_fixed_prefix\<close> matches the name (never, when
  the list is \<^verbatim>\<open>None\<close>); used to state properties of the loop.\<close>

definition matches_fixed :: "(string \<Rightarrow> string \<Rightarrow> bool) \<Rightarrow> string list option \<Rightarrow> string \<Rightarrow> bool" where
  "matches_fixed re_match params_fixed_prefix p =
     (case params_fixed_prefix of None \<Rightarrow> False | Some fs \<Rightarrow> list_ex (\<lambda>f. re_match f p) fs)"

section \<open>Properties of the backbone\<close>




lemma bind_err_Inr [simp]: "bind_err (Inr x) f = f x"
  by (simp add: bind_err_def)

lemma bind_err_Inl [simp]: "bind_err (Inl e) f = Inl e"
  by (simp add: bind_err_def)

lemma sequence_err_replicate: "sequence_err (replicate n (Inr x)) = Inr (replicate n x)"
  by (induction n) simp_all

lemma nn_Conv2D_ok:
  "1 \<le> channels c \<Longrightarrow> 1 \<le> kernel_size c \<Longrightarrow> 1 \<le> strides c \<Longrightarrow> 1 \<le> groups c \<Longrightarrow>
     nn_Conv2D c = Inr (Conv2D c)"
  by (simp add: nn_Conv2D_def)

lemma Block_init_ok:
  assumes "1 \<le> Block_group_width chs c w" "1 \<le> c" "1 \<le> st" "4 \<le> chs"
  shows "\<exists>b. Block_init chs c w st d g s dc = Inr b
           \<and> Block_widths b = (Some (Block_group_width chs c w), Some (chs * 4))
           \<and> last (body b) = (if g then Norm gamma_default else Norm gamma_zeros)"
proof -
  have q: "1 \<le> chs div 4" "1 \<le> chs * 4" using assms(4) by simp_all
  have z: "c \<noteq> 0" using assms(2) by simp
  show ?thesis
    using assms q z
    by (simp add: Block_init_def Let_def nn_Conv2D_def conv3x3_dcn_def
        DeformabelConv2D_init_def Block_widths_def)
qed


lemma Block_D_64: "Block_D (64 * k) w = k * w"
proof -
  have "real_of_int (64 * k) * (real_of_int w / 64) = real_of_int (k * w)"
    by simp
  then show ?thesis
    unfolding Block_D_def by (simp only: floor_of_int)
qed

lemma Block_D_width4: "Block_D chs 4 = chs div 16"
proof -
  have "real_of_int chs * (real_of_int 4 / 64) = real_of_int chs / real_of_int 16"
    by simp
  then show ?thesis
    unfolding Block_D_def by (simp only: floor_divide_of_int_eq)
qed

lemma make_layer_ok:
  assumes "1 \<le> Block_group_width chs c w" "1 \<le> c" "1 \<le> st" "4 \<le> chs"
  shows "\<exists>sg. make_layer c w chs n st g s idx dc = Inr sg
           \<and> map Block_widths (blocks sg)
               = replicate (Suc (nat (n - 1))) (Some (Block_group_width chs c w), Some (chs * 4))
           \<and> map (\<lambda>b. last (body b)) (blocks sg)
               = replicate (Suc (nat (n - 1))) (if g then Norm gamma_default else Norm gamma_zeros)"
proof -
  obtain b1 where b1: "Block_init chs c w st True g s dc = Inr b1"
      "Block_widths b1 = (Some (Block_group_width chs c w), Some (chs * 4))"
      "last (body b1) = (if g then Norm gamma_default else Norm gamma_zeros)"
    using Block_init_ok [OF assms] by blast
  have one: "(1::int) \<le> 1" by simp
  obtain b2 where b2: "Block_init chs c w 1 False g s dc = Inr b2"
      "Block_widths b2 = (Some (Block_group_width chs c w), Some (chs * 4))"
      "last (body b2) = (if g then Norm gamma_default else Norm gamma_zeros)"
    using Block_init_ok [OF assms(1) assms(2) one assms(4)] by blast
  have "make_layer c w chs n st g s idx dc
          = Inr \<lparr>stage_index = idx, blocks = b1 # replicate (nat (n - 1)) b2\<rparr>"
    by (simp add: make_layer_def b1(1) b2(1) sequence_err_replicate)
  then show ?thesis
    using b1 b2 by simp
qed

lemma ResNext_init_ok:
  assumes "1 \<le> c" "1 \<le> w"
  shows "\<exists>net. ResNext_init [n1, n2, n3, n4] c w g s = Inr net
     \<and> map (\<lambda>sg. map Block_widths (blocks sg)) (stages net)
         = [replicate (Suc (nat (n1 - 1))) (Some (c * w), Some 256),
            replicate (Suc (nat (n2 - 1))) (Some (c * (2 * w)), Some 512),
            replicate (Suc (nat (n3 - 1))) (Some (c * (4 * w)), Some 1024),
            replicate (Suc (nat (n4 - 1))) (Some (c * (8 * w)), Some 2048)]
     \<and> map (\<lambda>sg. map (\<lambda>b. last (body b)) (blocks sg)) (stages net)
         = [replicate (Suc (nat (n1 - 1))) (if g then Norm gamma_default else Norm gamma_zeros),
            replicate (Suc (nat (n2 - 1))) (if g then Norm gamma_default else Norm gamma_zeros),
            replicate (Suc (nat (n3 - 1))) (if g then Norm gamma_default else Norm gamma_zeros),
            replicate (Suc (nat (n4 - 1))) (if g then Norm gamma_default else Norm gamma_zeros)]"
proof -
  have gw: "Block_group_width 64 c w = c * w" "Block_group_width 128 c w = c * (2 * w)"
      "Block_group_width 256 c w = c * (4 * w)" "Block_group_width 512 c w = c * (8 * w)"
    using Block_D_64 [of 1 w] Block_D_64 [of 2 w] Block_D_64 [of 4 w] Block_D_64 [of 8 w]
    by (simp_all add: Block_group_width_def)
  have m: "1 \<le> c * k" if "1 \<le> k" for k
    using mult_mono [of 1 c 1 k] assms(1) that by simp
  have pos: "1 \<le> c * w" "1 \<le> c * (2 * w)" "1 \<le> c * (4 * w)" "1 \<le> c * (8 * w)"
    using assms(2) by (simp_all add: m)
  have s1: "(1::int) \<le> 1" and s2: "(1::int) \<le> 2" by simp_all
  obtain g1 where g1: "make_layer c w 64 n1 1 g s 1 False = Inr g1"
      "map Block_widths (blocks g1) = replicate (Suc (nat (n1 - 1))) (Some (c * w), Some 256)"
      "map (\<lambda>b. last (body b)) (blocks g1)
         = replicate (Suc (nat (n1 - 1))) (if g then Norm gamma_default else Norm gamma_zeros)"
    using make_layer_ok [of 64 c w 1 n1 g s 1 False] pos assms(1) by (auto simp add: gw)
  obtain g2 where g2: "make_layer c w 128 n2 2 g s 2 True = Inr g2"
      "map Block_widths (blocks g2) = replicate (Suc (nat (n2 - 1))) (Some (c * (2 * w)), Some 512)"
      "map (\<lambda>b. last (body b)) (blocks g2)
         = replicate (Suc (nat (n2 - 1))) (if g then Norm gamma_default else Norm gamma_zeros)"
    using make_layer_ok [of 128 c w 2 n2 g s 2 True] pos assms(1) by (auto simp add: gw)
  obtain g3 where g3: "make_layer c w 256 n3 2 g s 3 True = Inr g3"
      "map Block_widths (blocks g3) = replicate (Suc (nat (n3 - 1))) (Some (c * (4 * w)), Some 1024)"
      "map (\<lambda>b. last (body b)) (blocks g3)
         = replicate (Suc (nat (n3 - 1))) (if g then Norm gamma_default else Norm gamma_zeros)"
    using make_layer_ok [of 256 c w 2 n3 g s 3 True] pos assms(1) by (auto simp add: gw)
  obtain g4 where g4: "make_layer c w 512 n4 2 g s 4 True = Inr g4"
      "map Block_widths (blocks g4) = replicate (Suc (nat (n4 - 1))) (Some (c * (8 * w)), Some 2048)"
      "map (\<lambda>b. last (body b)) (blocks g4)
         = replicate (Suc (nat (n4 - 1))) (if g then Norm gamma_default else Norm gamma_zeros)"
    using make_layer_ok [of 512 c w 2 n4 g s 4 True] pos assms(1) by (auto simp add: gw)
  have "ResNext_init [n1, n2, n3, n4] c w g s =
      Inr \<lparr>net_cardinality = c, net_bottleneck_width = w,
           stem = [Conv2D \<lparr>channels = 64, kernel_size = 7, strides = 2, padding = 3,
                     groups = 1, use_bias = False\<rparr>,
                   Norm gamma_default, Activation ''relu'', MaxPool2D 3 2 1],
           stages = [g1, g2, g3, g4]\<rparr>"
    by (simp add: ResNext_init_def nn_Conv2D_def g1(1) g2(1) g3(1) g4(1))
  then show ?thesis
    using g1 g2 g3 g4 by simp
qed














lemma resnext50_stage_widths:
  "\<exists>net. ResNext_init [3, 4, 6, 3] 32 4 g s = Inr net
     \<and> map (\<lambda>sg. map Block_widths (blocks sg)) (stages net)
         = [replicate 3 (Some 128, Some 256), replicate 4 (Some 256, Some 512),
            replicate 6 (Some 512, Some 1024), replicate 3 (Some 1024, Some 2048)]"
proof -
  have h: "(1::int) \<le> 32" "(1::int) \<le> 4" by simp_all
  obtain net where net: "ResNext_init [3, 4, 6, 3] 32 4 g s = Inr net"
    and ws: "map (\<lambda>sg. map Block_widths (blocks sg)) (stages net)
       = [replicate (Suc (nat (3 - 1))) (Some (32 * 4), Some 256),
          replicate (Suc (nat (4 - 1))) (Some (32 * (2 * 4)), Some 512),
          replicate (Suc (nat (6 - 1))) (Some (32 * (4 * 4)), Some 1024),
          replicate (Suc (nat (3 - 1))) (Some (32 * (8 * 4)), Some 2048)]"
    using ResNext_init_ok [OF h, of 3 4 6 3 g s] by (elim exE conjE) (rule that, assumption+)
  have e: "Suc (nat (3 - 1)) = 3" "Suc (nat (4 - 1)) = 4" "Suc (nat (6 - 1)) = 6"
    by simp_all
  have ws': "map (\<lambda>sg. map Block_widths (blocks sg)) (stages net)
         = [replicate 3 (Some 128, Some 256), replicate 4 (Some 256, Some 512),
            replicate 6 (Some 512, Some 1024), replicate 3 (Some 1024, Some 2048)]"
    using ws unfolding e by simp
  show ?thesis by (rule exI [of _ net]) (simp only: net ws' simp_thms)
qed

text \<open>
  Claim C5, as stated: in the depth-50 network with cardinality 32 and bottleneck width
  4 every block of every stage has \<open>D = 4\<close> and \<open>group_width = 128\<close>.  The second stage
  is built with \<open>channels = 128\<close>, for which \<open>D = 8\<close> and \<open>group_width = 256\<close>, and the
  first convolution of its first block has 256 channels.
\<close>

theorem resnext50_widths_counterexample:
  "Block_D 128 4 = 8 \<and> Block_group_width 128 32 4 = 256
   \<and> map_sum id (\<lambda>net. Block_widths (hd (blocks (stages net ! 1))))
        (ResNext_init [3, 4, 6, 3] 32 4 False False) = Inr (Some 256, Some 512)"
proof -
  obtain net where net: "ResNext_init [3, 4, 6, 3] 32 4 False False = Inr net"
    and ws: "map (\<lambda>sg. map Block_widths (blocks sg)) (stages net)
         = [replicate 3 (Some 128, Some 256), replicate 4 (Some 256, Some 512),
            replicate 6 (Some 512, Some 1024), replicate 3 (Some 1024, Some 2048)]"
    using resnext50_stage_widths [of False False] by (elim exE conjE) (rule that, assumption+)
  have len: "length (stages net) = 4"
    using arg_cong [OF ws, of length] by simp
  have "map (\<lambda>sg. map Block_widths (blocks sg)) (stages net) ! 1
          = replicate 4 (Some 256, Some 512)"
    unfolding ws by simp
  then have b: "map Block_widths (blocks (stages net ! 1)) = replicate 4 (Some 256, Some 512)"
    using len by simp
  then have ne: "blocks (stages net ! 1) \<noteq> []" by auto
  have "hd (map Block_widths (blocks (stages net ! 1))) = (Some 256, Some 512)"
    unfolding b by (simp add: numeral_eq_Suc)
  then have c: "Block_widths (hd (blocks (stages net ! 1))) = (Some 256, Some 512)"
    using ne by (simp add: hd_map)
  have d: "Block_D 128 4 = 8" "Block_group_width 128 32 4 = 256"
    by (simp_all add: Block_group_width_def Block_D_width4)
  show ?thesis using c d by (simp add: net)
qed

text \<open>
  Claim C5, amended.  With bottleneck width 4 a block built for \<open>channels\<close> computes
  \<open>D = channels div 16\<close>, and with cardinality 32 \<open>group_width = 32 * D\<close>.  The four stages
  of the depth-50 network are built for 64, 128, 256 and 512 channels, so \<open>D\<close> is 4, 8, 16,
  32 and the blocks (3, 4, 6, 3 of them) have group width 128, 256, 512, 1024 and
  \<open>channels * 4\<close> = 256, 512, 1024, 2048 output channels.  No input size enters the
  construction.
\<close>

theorem resnext50_widths:
  "Block_D chs 4 = chs div 16
   \<and> Block_group_width chs 32 4 = 32 * (chs div 16)
   \<and> map (\<lambda>chs. Block_D chs 4) [64, 128, 256, 512] = [4, 8, 16, 32]
   \<and> map_sum id (\<lambda>net. map (\<lambda>sg. map Block_widths (blocks sg)) (stages net))
        (ResNext_init [3, 4, 6, 3] 32 4 g s)
       = Inr [replicate 3 (Some 128, Some 256), replicate 4 (Some 256, Some 512),
              replicate 6 (Some 512, Some 1024), replicate 3 (Some 1024, Some 2048)]"
proof -
  obtain net where net: "ResNext_init [3, 4, 6, 3] 32 4 g s = Inr net"
    and ws: "map (\<lambda>sg. map Block_widths (blocks sg)) (stages net)
         = [replicate 3 (Some 128, Some 256), replicate 4 (Some 256, Some 512),
            replicate 6 (Some 512, Some 1024), replicate 3 (Some 1024, Some 2048)]"
    using resnext50_stage_widths [of g s] by (elim exE conjE) (rule that, assumption+)
  have d: "Block_D chs 4 = chs div 16" "Block_group_width chs 32 4 = 32 * (chs div 16)"
      "map (\<lambda>chs. Block_D chs 4) [64, 128, 256, 512] = [4, 8, 16, 32]"
    by (simp_all add: Block_group_width_def Block_D_width4)
  show ?thesis using d by (simp add: net ws)
qed

text \<open>
  Claim C6.  The claim and the docstring of \<^verbatim>\<open>Block\<close> (\<^verbatim>\<open>last_gamma\<close>: whether to
  initialize the gamma of the last norm layer to zero) say that the norm layer after the
  final 1x1 convolution has zero gamma when \<^verbatim>\<open>last_gamma\<close> is true.  The constructor
  does the opposite: with \<^verbatim>\<open>last_gamma\<close> true the layer keeps its default initializer,
  with \<^verbatim>\<open>last_gamma\<close> false it gets \<^verbatim>\<open>gamma_initializer='zeros'\<close>.
\<close>

theorem Block_last_gamma_inverted:
  "map_sum id (\<lambda>b. last (body b)) (Block_init 64 32 4 1 True True False False)
     = Inr (Norm gamma_default)
   \<and> map_sum id (\<lambda>b. last (body b)) (Block_init 64 32 4 1 True False False False)
     = Inr (Norm gamma_zeros)"
  by (simp add: Block_init_def Let_def nn_Conv2D_def Block_group_width_def Block_D_width4)

section \<open>Properties of the loss kernels\<close>

lemma BCELoss_ok:
  "shape2 y = shape2 t \<Longrightarrow> BCELoss y t = Inr (map2 (map2 BCELoss_forward) y t)"
  by (simp add: BCELoss_def)

lemma shape2_map2:
  assumes "shape2 y = shape2 t"
  shows "shape2 (map2 (map2 f) y t) = shape2 y"
proof (cases y)
  case Nil
  then show ?thesis by (simp add: shape2_def)
next
  case (Cons r rs)
  with assms obtain u us where t: "t = u # us" by (cases t) (simp_all add: shape2_def)
  with assms Cons show ?thesis by (simp add: shape2_def)
qed

lemma BCELoss_mismatch: "shape2 y \<noteq> shape2 t \<Longrightarrow> BCELoss y t = Inl AssertionError"
  by (simp add: BCELoss_def)

text \<open>
  Claim C2.  The shape inference of \<^verbatim>\<open>BCELoss\<close> and of \<^verbatim>\<open>L2Loss\<close> fails with an
  assertion error when the prediction shape \<open>s0\<close> and the target shape \<open>s1\<close> differ
  (\<^verbatim>\<open>BCELoss\<close> prints the two shapes first).  For equal shapes \<open>s\<close> both succeed and
  declare one output, of shape \<open>s\<close>.  Accordingly a call of \<^verbatim>\<open>BCELoss\<close> on matrices
  of differing shape fails with the assertion error, and on matrices of equal shape it
  returns a matrix of that shape.
\<close>

theorem loss_kernels_infer_shape:
  "(s0 \<noteq> s1 \<longrightarrow>
      BCELoss_infer_shape [s0, s1] = ([[s0, s1]], Inl AssertionError)
      \<and> L2Loss_infer_shape [s0, s1] = Inl AssertionError)
   \<and> BCELoss_infer_shape [s, s] = ([], Inr ([s, s], [s]))
   \<and> L2Loss_infer_shape [s, s] = Inr ([s, s], [s])
   \<and> (shape2 y \<noteq> shape2 t \<longrightarrow> BCELoss y t = Inl AssertionError)
   \<and> (shape2 y = shape2 t \<longrightarrow>
        BCELoss y t = Inr (map2 (map2 BCELoss_forward) y t)
        \<and> shape2 (map2 (map2 BCELoss_forward) y t) = shape2 y)"
  by (simp add: BCELoss_mismatch BCELoss_ok shape2_map2)

theorem loss_kernels_infer_shape_witness:
  "[2, 3] \<noteq> [2, 4 :: nat]
   \<and> BCELoss_infer_shape [[2, 3], [2, 4]] = ([[[2, 3], [2, 4]]], Inl AssertionError)
   \<and> L2Loss_infer_shape [[2, 3], [2, 4]] = Inl AssertionError
   \<and> BCELoss_infer_shape [[2, 3], [2, 3]] = ([], Inr ([[2, 3], [2, 3]], [[2, 3]]))
   \<and> L2Loss_infer_shape [[2, 3], [2, 3]] = Inr ([[2, 3], [2, 3]], [[2, 3]])
   \<and> shape2 [[0, 0]] \<noteq> shape2 [[1]]
   \<and> BCELoss [[0, 0]] [[1]] = Inl AssertionError
   \<and> shape2 [[0, 0]] = shape2 [[1, 1]]
   \<and> BCELoss [[0, 0]] [[1, 1]] = Inr [[ln 2, ln 2]]
   \<and> shape2 [[ln 2, ln 2]] = shape2 [[0, 0]]"
  using loss_kernels_infer_shape [of "[2, 3]" "[2, 4]" "[2, 3]" "[[0, 0]]" "[[1]]"]
    loss_kernels_infer_shape [of "[2, 3]" "[2, 4]" "[2, 3]" "[[0, 0]]" "[[1, 1]]"]
  by (simp add: shape2_def BCELoss_forward_def)

subsection \<open>The loss of one training step\<close>

lemma sum_list_map2_divide:
  "sum_list (map2 (\<lambda>x y. g x y / c) xs ys) = sum_list (map2 g xs ys) / (c::real)"
proof (induction xs arbitrary: ys)
  case Nil
  show ?case by simp
next
  case (Cons x xs)
  show ?case by (cases ys) (simp_all add: Cons.IH add_divide_distrib)
qed

lemma sum2_map2_divide:
  "sum2 (map2 (map2 (\<lambda>x y. g x y / c)) A B) = sum2 (map2 (map2 g) A B) / (c::real)"
proof (induction A arbitrary: B)
  case Nil
  show ?case by (simp add: sum2_def)
next
  case (Cons a A)
  show ?case
  proof (cases B)
    case Nil
    then show ?thesis by (simp add: sum2_def)
  next
    case (Cons b B')
    have "sum2 (map2 (map2 (\<lambda>x y. g x y / c)) A B') = sum2 (map2 (map2 g) A B') / c"
      by (rule Cons.IH)
    then show ?thesis
      using Cons by (simp add: sum2_def sum_list_map2_divide add_divide_distrib)
  qed
qed

lemma sum3_map2_divide:
  "sum3 (map2 (map2 (map2 (\<lambda>x y. g x y / c))) P T) = sum3 (map2 (map2 (map2 g)) P T) / (c::real)"
proof (induction P arbitrary: T)
  case Nil
  show ?case by (simp add: sum3_def)
next
  case (Cons a A)
  show ?case
  proof (cases T)
    case Nil
    then show ?thesis by (simp add: sum3_def)
  next
    case (Cons b B')
    have "sum3 (map2 (map2 (map2 (\<lambda>x y. g x y / c))) A B') = sum3 (map2 (map2 (map2 g)) A B') / c"
      by (rule Cons.IH)
    then show ?thesis
      using Cons by (simp add: sum3_def sum2_map2_divide add_divide_distrib)
  qed
qed

lemma ex_shapes: "shapes_ok [[[0], [0], [0], [0], [0], [0]]] [[[1], [1], [1], [1], [1], [1 / 2], [1]]]"
  by (simp add: shapes_ok_def nonzero3_def shape2_def shape3_def)

lemma ex_train:
  "train_loss (\<lambda>p t. 1) (\<lambda>a g x t. 0) [[[0], [0], [0], [0], [0], [0]]]
      [[[1], [1], [1], [1], [1], [1 / 2], [1]]] = Inr (ln 2 / 2 + 1 / 3)"
  by (simp add: train_loss_def nonzero3_def BCELoss_def BCELoss_forward_def shape2_def
      shape3_def sum2_def sum3_def Let_def)

lemma ex_spec:
  "spec_batch_loss (\<lambda>p t. 1) (\<lambda>a g x t. 0) [[[0], [0], [0], [0], [0], [0]]]
      [[[1], [1], [1], [1], [1], [1 / 2], [1]]] = ln 2 / 2 + 1"
  by (simp add: spec_batch_loss_def center_sum_def iou_sum_def cls_sum_def BCELoss_forward_def
      sum2_def sum3_def Let_def)

text \<open>
  Claim C1, as stated: the loss of a batch is
  \<open>sum(centerness_loss)/num_pos + sum(IoU_loss * positive_mask)/sum(positive_mask)
  + sum(focal_cls_loss)/num_pos\<close>.  Take one sample with one position, positive mask 1,
  centerness target \<open>1/2\<close>, one class channel with target 1, all logits 0, an IoU loss of
  1 at that row and a focal loss of 0.  The code weights the IoU loss by the centerness target and divides by the sum of
  the centerness targets plus one: \<open>1 * (1/2) / (1/2 + 1) = 1/3\<close>, where the claim has
  \<open>1 * 1 / 1 = 1\<close>.  The centerness terms agree (\<open>ln 2 / 2\<close>).
\<close>

theorem train_loss_counterexample:
  "train_loss (\<lambda>p t. 1) (\<lambda>a g x t. 0) [[[0], [0], [0], [0], [0], [0]]]
      [[[1], [1], [1], [1], [1], [1 / 2], [1]]] = Inr (ln 2 / 2 + 1 / 3)
   \<and> spec_batch_loss (\<lambda>p t. 1) (\<lambda>a g x t. 0) [[[0], [0], [0], [0], [0], [0]]]
      [[[1], [1], [1], [1], [1], [1 / 2], [1]]] = ln 2 / 2 + 1
   \<and> train_loss (\<lambda>p t. 1) (\<lambda>a g x t. 0) [[[0], [0], [0], [0], [0], [0]]]
      [[[1], [1], [1], [1], [1], [1 / 2], [1]]]
     \<noteq> Inr (spec_batch_loss (\<lambda>p t. 1) (\<lambda>a g x t. 0) [[[0], [0], [0], [0], [0], [0]]]
      [[[1], [1], [1], [1], [1], [1 / 2], [1]]])"
  by (simp add: ex_train ex_spec)

text \<open>
  Claim C1, amended.  For predictions and targets of matching shapes, with at least one
  class channel, the loss of a batch is \<open>sum(BCE(centerness logit, centerness target) * positive_mask)/num_pos
  + sum(IoU_loss * centerness_target)/(sum(centerness_target) + 1)
  + sum(focal_cls_loss)/num_pos\<close>, where \<open>num_pos = sum(positive_mask) + 1\<close>, the
  positive mask is channel 0 and the centerness target channel 5 of the dense target
  tensor.
\<close>

theorem train_loss_closed_form:
  assumes "shapes_ok preds targets"
  shows "train_loss IoULoss_op FocalLoss_op preds targets =
     Inr (center_sum preds targets / (sum2 (map (\<lambda>s. s ! 0) targets) + 1)
          + iou_sum IoULoss_op (concat (map (\<lambda>s. s ! 5) targets)) preds targets
              / (sum2 (map (\<lambda>s. s ! 5) targets) + 1)
          + cls_sum FocalLoss_op preds targets / (sum2 (map (\<lambda>s. s ! 0) targets) + 1))"
proof -
  from assms have n: "nonzero3 preds" "nonzero3 targets"
    and c6: "list_all (\<lambda>s. 6 \<le> length s) preds" "list_all (\<lambda>s. 7 \<le> length s) targets"
    and r: "length (concat (map (\<lambda>s. transpose (take 4 s)) preds))
         = length (concat (map (\<lambda>s. transpose (take 4 (drop 1 s))) targets))"
    and b: "shape2 (map (\<lambda>s. s ! 4) preds) = shape2 (map (\<lambda>s. s ! 5) targets)"
    and f: "shape3 (map (drop 5) preds) = shape3 (map (drop 6) targets)"
    by (simp_all add: shapes_ok_def)
  have c5: "list_all (\<lambda>s. 5 \<le> length s) preds" "list_all (\<lambda>s. 6 \<le> length s) targets"
    using c6 by (auto simp add: list_all_iff)
  show ?thesis
    unfolding train_loss_def Let_def center_sum_def iou_sum_def cls_sum_def
    by (simp only: n c5 c6 r f BCELoss_ok [OF b] sum_list_map2_divide sum2_map2_divide
        sum3_map2_divide simp_thms if_True if_False sum.case)
qed

theorem train_loss_closed_form_witness:
  "shapes_ok [[[0], [0], [0], [0], [0], [0]]] [[[1], [1], [1], [1], [1], [1 / 2], [1]]]
   \<and> train_loss (\<lambda>p t. 1) (\<lambda>a g x t. 0) [[[0], [0], [0], [0], [0], [0]]]
        [[[1], [1], [1], [1], [1], [1 / 2], [1]]]
     = Inr (center_sum [[[0], [0], [0], [0], [0], [0]]] [[[1], [1], [1], [1], [1], [1 / 2], [1]]]
              / (sum2 (map (\<lambda>s. s ! 0) [[[1], [1], [1], [1], [1], [1 / 2], [1]]]) + 1)
          + iou_sum (\<lambda>p t. 1) (concat (map (\<lambda>s. s ! 5) [[[1], [1], [1], [1], [1], [1 / 2], [1]]]))
              [[[0], [0], [0], [0], [0], [0]]] [[[1], [1], [1], [1], [1], [1 / 2], [1]]]
              / (sum2 (map (\<lambda>s. s ! 5) [[[1], [1], [1], [1], [1], [1 / 2], [1]]]) + 1)
          + cls_sum (\<lambda>a g x t. 0) [[[0], [0], [0], [0], [0], [0]]]
              [[[1], [1], [1], [1], [1], [1 / 2], [1]]]
              / (sum2 (map (\<lambda>s. s ! 0) [[[1], [1], [1], [1], [1], [1 / 2], [1]]]) + 1))"
  using ex_shapes train_loss_closed_form [OF ex_shapes, of "\<lambda>p t. 1" "\<lambda>a g x t. 0"]
  by blast

section \<open>Properties of the target-generation adapters\<close>

lemma setitem_rows_5:
  assumes "list_all (\<lambda>row. length row = 5) src" "length src \<le> n"
  shows "setitem_rows (replicate n (replicate 5 v)) src = Inr (src @ replicate (n - length src) (replicate 5 v))"
proof -
  have "map2 (\<lambda>d s. s @ drop 5 d) (replicate (length src) (replicate 5 v)) src = src"
    by (induction src) simp_all
  then show ?thesis
    using assms by (simp add: setitem_rows_def min_absorb2)
qed

lemma RetinaNet_call_ok:
  assumes "list_all (\<lambda>row. length row = 5) (h ! a)" "length (h ! a) \<le> n"
  shows "RetinaNetTargetGenerator_call n h img a =
     (h @ [h ! a, replicate n (replicate 5 1),
           h ! a @ replicate (n - length (h ! a)) (replicate 5 (- 1))],
      Inr (img, length h + 2))"
  using assms
  by (simp add: RetinaNetTargetGenerator_call_def np_copy_def np_alloc_def Let_def nth_append
      setitem_rows_5 list_update_append)

lemma RetinaNet_call_overflow:
  assumes "n < length (h ! a)"
  shows "RetinaNetTargetGenerator_call n h img a = (h @ [h ! a], Inl AssertionError)"
  using assms
  by (simp add: RetinaNetTargetGenerator_call_def np_copy_def np_alloc_def Let_def nth_append)

lemma RetinaNet_call_frame:
  assumes "b < length h"
  shows "fst (RetinaNetTargetGenerator_call n h img a) ! b = h ! b"
  using assms
  by (simp add: RetinaNetTargetGenerator_call_def np_copy_def np_alloc_def Let_def nth_append
      split: sum.split)

lemma FCOS_call_frame:
  assumes "b < length h"
  shows "fst (FCOSTargetGenerator_call k ss mins maxs nc h img a) ! b = h ! b"
  using assms
  by (simp add: FCOSTargetGenerator_call_def np_copy_def np_alloc_def Let_def nth_append
      split: sum.split)


lemma FCOS_call_copy:
  assumes "list_all (\<lambda>row. 5 \<le> length row) (h ! a)"
  shows "fst (FCOSTargetGenerator_call k ss mins maxs nc h img a)
           = h @ [map (\<lambda>row. row[4 := row ! 4 + 1]) (h ! a)]"
  using assms
  by (simp add: FCOSTargetGenerator_call_def np_copy_def np_alloc_def Let_def nth_append
      list_update_append split: sum.split)

text \<open>
  Claim C3.  For a box array with five columns and at most 200 rows, the adapter of the
  anchor-based pipeline returns the image and a new array of shape \<open>(200, 5)\<close> whose
  first rows are the input boxes and whose remaining rows are \<open>-1\<close> in every column.
  For more than 200 boxes it fails with an assertion error.
\<close>

theorem RetinaNet_padding:
  "(bboxes < length h \<and> list_all (\<lambda>row. length row = 5) (h ! bboxes)
      \<and> length (h ! bboxes) \<le> max_bbox_number \<longrightarrow>
        RetinaNetTargetGenerator_call max_bbox_number h img bboxes =
          (h @ [h ! bboxes, replicate 200 (replicate 5 1),
                h ! bboxes @ replicate (200 - length (h ! bboxes)) (replicate 5 (- 1))],
           Inr (img, length h + 2))
        \<and> length (h ! bboxes @ replicate (200 - length (h ! bboxes)) (replicate 5 (- 1 :: real)))
            = 200
        \<and> list_all (\<lambda>row. length row = 5)
            (h ! bboxes @ replicate (200 - length (h ! bboxes)) (replicate 5 (- 1 :: real))))
   \<and> (bboxes < length h \<and> max_bbox_number < length (h ! bboxes) \<longrightarrow>
        snd (RetinaNetTargetGenerator_call max_bbox_number h img bboxes) = Inl AssertionError)"
  by (auto simp add: RetinaNet_call_ok RetinaNet_call_overflow max_bbox_number_def list_all_iff)

theorem RetinaNet_padding_witness:
  "(0::nat) < length [[[10, 20, 30, 40, 7 :: real]]]
   \<and> list_all (\<lambda>row. length row = 5) ([[[10, 20, 30, 40, 7 :: real]]] ! 0)
   \<and> length ([[[10, 20, 30, 40, 7 :: real]]] ! 0) \<le> max_bbox_number
   \<and> RetinaNetTargetGenerator_call max_bbox_number [[[10, 20, 30, 40, 7]]] () 0 =
        ([[[10, 20, 30, 40, 7]], [[10, 20, 30, 40, 7]], replicate 200 (replicate 5 1),
          [10, 20, 30, 40, 7] # replicate 199 (replicate 5 (- 1))],
         Inr ((), 3))
   \<and> max_bbox_number < length ([replicate 201 [0, 0, 0, 0, 0 :: real]] ! 0)
   \<and> snd (RetinaNetTargetGenerator_call max_bbox_number [replicate 201 [0, 0, 0, 0, 0]] () 0)
        = Inl AssertionError"
  using RetinaNet_padding [of 0 "[[[10, 20, 30, 40, 7]]]" "()"]
    RetinaNet_padding [of 0 "[replicate 201 [0, 0, 0, 0, 0]]" "()"]
  by (simp add: max_bbox_number_def)

text \<open>
  Claim C10.  Neither adapter changes an array that existed before the call, in
  particular not the caller's box array, whether the call succeeds or raises.  The
  class-id shift of \<^verbatim>\<open>FCOSTargetGenerator\<close> lands in the copy, which is the one new
  array of the store; \<^verbatim>\<open>RetinaNetTargetGenerator\<close> writes only to arrays it allocated.
\<close>

theorem adapters_leave_bboxes_unchanged:
  "(b < length h \<longrightarrow>
      fst (FCOSTargetGenerator_call target_op fpn_strides mins maxs nc h img bboxes) ! b = h ! b
      \<and> fst (RetinaNetTargetGenerator_call n h img' bboxes) ! b = h ! b)
   \<and> (list_all (\<lambda>row. 5 \<le> length row) (h ! bboxes) \<longrightarrow>
        fst (FCOSTargetGenerator_call target_op fpn_strides mins maxs nc h img bboxes)
          = h @ [map (\<lambda>row. row[4 := row ! 4 + 1]) (h ! bboxes)])"
  by (simp add: FCOS_call_frame RetinaNet_call_frame FCOS_call_copy)

theorem adapters_leave_bboxes_unchanged_witness:
  "(0::nat) < length [[[10, 20, 30, 40, 7 :: real]]]
   \<and> fst (FCOSTargetGenerator_call (\<lambda>s mn mx c i bb. [[[1]]]) [8] [0] [64] 81
            [[[10, 20, 30, 40, 7]]] () 0) ! 0 = [[10, 20, 30, 40, 7]]
   \<and> fst (RetinaNetTargetGenerator_call 200 [[[10, 20, 30, 40, 7]]] () 0) ! 0
        = [[10, 20, 30, 40, 7]]
   \<and> list_all (\<lambda>row. 5 \<le> length row) ([[[10, 20, 30, 40, 7 :: real]]] ! 0)
   \<and> fst (FCOSTargetGenerator_call (\<lambda>s mn mx c i bb. [[[1]]]) [8] [0] [64] 81
            [[[10, 20, 30, 40, 7]]] () 0)
        = [[[10, 20, 30, 40, 7]], [[10, 20, 30, 40, 8]]]"
  using adapters_leave_bboxes_unchanged [of 0 "[[[10, 20, 30, 40, 7]]]"
      "\<lambda>s mn mx c i bb. [[[1]]]" "[8]" "[0]" "[64]" 81 "()" 0 200 "()"]
  by simp

section \<open>Properties of the parameter selection\<close>

lemma fixed_fold_store:
  "fst (fold (fixed_step rm p) fs st) =
     (if list_ex (\<lambda>f. rm f p) fs then (fst st)(p := (fst st p)\<lparr>grad_req := ''null''\<rparr>) else fst st)"
proof (induction fs arbitrary: st)
  case Nil
  show ?case by simp
next
  case (Cons f fs)
  obtain pa ig lg where st: "st = (pa, ig, lg)" by (cases st)
  show ?case
    unfolding fold_simps Cons.IH by (simp add: st fixed_step_def fun_eq_iff)
qed

lemma fixed_fold_ignore:
  "fst (snd (fold (fixed_step rm p) fs st)) = (fst (snd st) \<or> list_ex (\<lambda>f. rm f p) fs)"
proof (induction fs arbitrary: st)
  case Nil
  show ?case by simp
next
  case (Cons f fs)
  obtain pa ig lg where st: "st = (pa, ig, lg)" by (cases st)
  show ?case
    unfolding fold_simps Cons.IH by (simp add: st fixed_step_def)
qed

lemma select_step_store:
  "fst (select_step rm fixed p st) =
     (if matches_fixed rm fixed p then (fst st)(p := (fst st p)\<lparr>grad_req := ''null''\<rparr>) else fst st)"
proof -
  obtain pa tt lg where st: "st = (pa, tt, lg)" by (cases st)
  show ?thesis
  proof (cases fixed)
    case None
    then show ?thesis by (simp add: st select_step_def matches_fixed_def Let_def)
  next
    case (Some fs)
    then show ?thesis
      by (simp add: st select_step_def matches_fixed_def Let_def case_prod_beta
          fixed_fold_store)
  qed
qed


lemma select_step_trained:
  "set (fst (snd (select_step rm fixed p st))) =
     (if \<not> matches_fixed rm fixed p \<and> grad_req (fst st p) \<noteq> ''null''
      then insert p (set (fst (snd st))) else set (fst (snd st)))"
proof -
  obtain pa tt lg where st: "st = (pa, tt, lg)" by (cases st)
  show ?thesis
  proof (cases fixed)
    case None
    then show ?thesis by (auto simp add: st select_step_def matches_fixed_def Let_def)
  next
    case (Some fs)
    show ?thesis
    proof (cases "list_ex (\<lambda>f. rm f p) fs")
      case True
      then show ?thesis
        using Some
        by (simp add: st select_step_def matches_fixed_def Let_def case_prod_beta
            fixed_fold_store fixed_fold_ignore)
    next
      case False
      then show ?thesis
        using Some
        by (auto simp add: st select_step_def matches_fixed_def Let_def case_prod_beta
            fixed_fold_store fixed_fold_ignore)
    qed
  qed
qed


lemma select_fold_store:
  "fst (fold (select_step rm fixed) keys st) q =
     (if q \<in> set keys \<and> matches_fixed rm fixed q
      then (fst st q)\<lparr>grad_req := ''null''\<rparr> else fst st q)"
proof (induction keys arbitrary: st)
  case Nil
  show ?case by simp
next
  case (Cons k keys)
  show ?case
    unfolding fold_simps Cons.IH by (simp add: select_step_store)
qed


lemma select_step_keeps:
  "\<not> matches_fixed rm fixed p \<Longrightarrow>
     grad_req (fst (select_step rm fixed k st) p) = grad_req (fst st p)"
  by (cases "p = k") (simp_all add: select_step_store)

lemma select_fold_trained:
  "set (fst (snd (fold (select_step rm fixed) keys st))) =
     set (fst (snd st))
     \<union> {p \<in> set keys. \<not> matches_fixed rm fixed p \<and> grad_req (fst st p) \<noteq> ''null''}"
proof (induction keys arbitrary: st)
  case Nil
  show ?case by simp
next
  case (Cons k keys)
  define st' where "st' = select_step rm fixed k st"
  have a: "{p \<in> set keys. \<not> matches_fixed rm fixed p \<and> grad_req (fst st' p) \<noteq> ''null''}
        = {p \<in> set keys. \<not> matches_fixed rm fixed p \<and> grad_req (fst st p) \<noteq> ''null''}"
    unfolding st'_def using select_step_keeps [of rm fixed _ k st] by (intro Collect_cong) metis
  have b: "set (fst (snd st')) =
     (if \<not> matches_fixed rm fixed k \<and> grad_req (fst st k) \<noteq> ''null''
      then insert k (set (fst (snd st))) else set (fst (snd st)))"
    unfolding st'_def by (rule select_step_trained)
  have "set (fst (snd (fold (select_step rm fixed) (k # keys) st)))
          = set (fst (snd (fold (select_step rm fixed) keys st')))"
    by (simp add: st'_def)
  also have "\<dots> = set (fst (snd st'))
     \<union> {p \<in> set keys. \<not> matches_fixed rm fixed p \<and> grad_req (fst st' p) \<noteq> ''null''}"
    by (rule Cons.IH)
  also have "\<dots> = set (fst (snd st))
     \<union> {p \<in> set (k # keys). \<not> matches_fixed rm fixed p \<and> grad_req (fst st p) \<noteq> ''null''}"
    unfolding a b by auto
  finally show ?case .
qed


lemma select_params_trained:
  "set (fst (snd (select_params rm fixed keys pa)))
     = {p \<in> set keys. \<not> matches_fixed rm fixed p \<and> grad_req (pa p) \<noteq> ''null''}"
  by (simp add: select_params_def select_fold_trained)

lemma select_params_store:
  "fst (select_params rm fixed keys pa) q =
     (if q \<in> set keys \<and> matches_fixed rm fixed q then (pa q)\<lparr>grad_req := ''null''\<rparr> else pa q)"
  by (simp add: select_params_def select_fold_store)

text \<open>
  Claim C9.  After the parameter-selection loop of the anchor-based pipeline, no
  parameter of \<^verbatim>\<open>params_to_train\<close> has the gradient requirement \<^verbatim>\<open>'null'\<close>, and no
  parameter that entered the loop with \<^verbatim>\<open>'null'\<close> is in \<^verbatim>\<open>params_to_train\<close>,
  whatever its name: a name containing \<^verbatim>\<open>running\<close> only spares the log message.
\<close>

theorem params_to_train_never_null:
  "(\<forall>p \<in> set (fst (snd (select_params rm fixed keys pa))).
       grad_req (fst (select_params rm fixed keys pa) p) \<noteq> ''null'')
   \<and> (\<forall>p. grad_req (pa p) = ''null'' \<longrightarrow> p \<notin> set (fst (snd (select_params rm fixed keys pa))))"
  by (simp add: select_params_trained select_params_store)


lemma ex_running: "sublist ''running'' ''bn_running_mean''"
  by (simp add: sublist_code(3))

lemma ex_not_running: "\<not> sublist ''running'' ''bn_gamma''" "\<not> sublist ''running'' ''conv_weight''"
  by (simp_all add: sublist_code(3))


lemma ex_select:
  "snd (select_params (\<lambda>f p. False) None [''bn_running_mean'', ''conv_weight'', ''bn_gamma'']
         ((\<lambda>p. \<lparr>grad_req = ''write''\<rparr>)
            (''bn_running_mean'' := \<lparr>grad_req = ''null''\<rparr>, ''bn_gamma'' := \<lparr>grad_req = ''null''\<rparr>)))
     = ([''conv_weight''], [ignore_null_grad ''bn_gamma''])"
  by (simp add: select_params_def select_step_def Let_def ex_running ex_not_running)


theorem params_to_train_never_null_witness:
  "''conv_weight'' \<in> set (fst (snd (select_params (\<lambda>f p. False) None [''bn_running_mean'', ''conv_weight'', ''bn_gamma'']
         ((\<lambda>p. \<lparr>grad_req = ''write''\<rparr>)
            (''bn_running_mean'' := \<lparr>grad_req = ''null''\<rparr>, ''bn_gamma'' := \<lparr>grad_req = ''null''\<rparr>)))))
   \<and> grad_req (fst (select_params (\<lambda>f p. False) None [''bn_running_mean'', ''conv_weight'', ''bn_gamma'']
         ((\<lambda>p. \<lparr>grad_req = ''write''\<rparr>)
            (''bn_running_mean'' := \<lparr>grad_req = ''null''\<rparr>, ''bn_gamma'' := \<lparr>grad_req = ''null''\<rparr>))) ''conv_weight'') \<noteq> ''null''
   \<and> grad_req (((\<lambda>p. \<lparr>grad_req = ''write''\<rparr>)
            (''bn_running_mean'' := \<lparr>grad_req = ''null''\<rparr>, ''bn_gamma'' := \<lparr>grad_req = ''null''\<rparr>)) ''bn_running_mean'') = ''null''
   \<and> sublist ''running'' ''bn_running_mean''
   \<and> ''bn_running_mean'' \<notin> set (fst (snd (select_params (\<lambda>f p. False) None [''bn_running_mean'', ''conv_weight'', ''bn_gamma'']
         ((\<lambda>p. \<lparr>grad_req = ''write''\<rparr>)
            (''bn_running_mean'' := \<lparr>grad_req = ''null''\<rparr>, ''bn_gamma'' := \<lparr>grad_req = ''null''\<rparr>)))))
   \<and> snd (select_params (\<lambda>f p. False) None [''bn_running_mean'', ''conv_weight'', ''bn_gamma'']
         ((\<lambda>p. \<lparr>grad_req = ''write''\<rparr>)
            (''bn_running_mean'' := \<lparr>grad_req = ''null''\<rparr>, ''bn_gamma'' := \<lparr>grad_req = ''null''\<rparr>))) = ([''conv_weight''], [ignore_null_grad ''bn_gamma''])"
proof -
  have e: "snd (select_params (\<lambda>f p. False) None [''bn_running_mean'', ''conv_weight'', ''bn_gamma'']
         ((\<lambda>p. \<lparr>grad_req = ''write''\<rparr>)
            (''bn_running_mean'' := \<lparr>grad_req = ''null''\<rparr>, ''bn_gamma'' := \<lparr>grad_req = ''null''\<rparr>))) = ([''conv_weight''], [ignore_null_grad ''bn_gamma''])"
    by (rule ex_select)
  then have m: "''conv_weight'' \<in> set (fst (snd (select_params (\<lambda>f p. False) None [''bn_running_mean'', ''conv_weight'', ''bn_gamma'']
         ((\<lambda>p. \<lparr>grad_req = ''write''\<rparr>)
            (''bn_running_mean'' := \<lparr>grad_req = ''null''\<rparr>, ''bn_gamma'' := \<lparr>grad_req = ''null''\<rparr>)))))"
    by simp
  have n: "grad_req (((\<lambda>p. \<lparr>grad_req = ''write''\<rparr>)
            (''bn_running_mean'' := \<lparr>grad_req = ''null''\<rparr>, ''bn_gamma'' := \<lparr>grad_req = ''null''\<rparr>)) ''bn_running_mean'') = ''null''"
    by simp
  note t = params_to_train_never_null [of "\<lambda>f p. False" None
      "[''bn_running_mean'', ''conv_weight'', ''bn_gamma'']" "((\<lambda>p. \<lparr>grad_req = ''write''\<rparr>)
            (''bn_running_mean'' := \<lparr>grad_req = ''null''\<rparr>, ''bn_gamma'' := \<lparr>grad_req = ''null''\<rparr>))"]
  from t m have a: "grad_req (fst (select_params (\<lambda>f p. False) None [''bn_running_mean'', ''conv_weight'', ''bn_gamma'']
         ((\<lambda>p. \<lparr>grad_req = ''write''\<rparr>)
            (''bn_running_mean'' := \<lparr>grad_req = ''null''\<rparr>, ''bn_gamma'' := \<lparr>grad_req = ''null''\<rparr>))) ''conv_weight'') \<noteq> ''null''"
    by blast
  from t n have b: "''bn_running_mean'' \<notin> set (fst (snd (select_params (\<lambda>f p. False) None [''bn_running_mean'', ''conv_weight'', ''bn_gamma'']
         ((\<lambda>p. \<lparr>grad_req = ''write''\<rparr>)
            (''bn_running_mean'' := \<lparr>grad_req = ''null''\<rparr>, ''bn_gamma'' := \<lparr>grad_req = ''null''\<rparr>)))))"
    by blast
  show ?thesis using e m n a b ex_running by blast
qed

end
